theory Spec2Isabelle
  imports Complex_Main "HOL-Library.AList"
begin

section \<open>Values\<close>

text \<open>
  The constructors of \<^verbatim>\<open>loopring/order.py\<close> receive a decoded JSON mapping
  (\<^verbatim>\<open>json.loads\<close> in \<^verbatim>\<open>client.py\<close>).  A JSON object is an association list in
  insertion order (a Python \<^verbatim>\<open>dict\<close> has distinct keys; no theorem below needs the
  distinctness).  A float is given by the rational it denotes; NaN and the
  infinities are left out.  A string is a list of 8-bit characters.
\<close>

datatype json =
    JNull
  | JBool bool
  | JInt int
  | JFloat rat
  | JStr string
  | JList "json list"
  | JObj "(string \<times> json) list"

datatype pyclass =
  CTransfer | CPartialOrder | COrder | CValidity | CVolume | CAsk | CBid | COrderBook

text \<open>
  What an attribute of an instance can hold: a decoded JSON value, a
  \<^verbatim>\<open>datetime\<close> (by its epoch second), a list of objects, or an instance of one of
  the classes, given by its class and its \<^verbatim>\<open>__dict__\<close>.
\<close>

datatype pyval =
    PJson json
  | PDatetime rat
  | PList "pyval list"
  | PInst pyclass "(string \<times> pyval) list"

type_synonym attrs = "(string \<times> pyval) list"

datatype error =
    AttributeError
  | TypeError
  | ValueError
  | KeyError
  | OverflowError
  | OSError
  | RuntimeError
  | InvalidArguments string
  | LoopringError string

text \<open>
  \<^verbatim>\<open>to_snake_case\<close> and \<^verbatim>\<open>auto_repr\<close> come from \<^verbatim>\<open>util/helpers.py\<close>, which is
  not among the sources, and \<^verbatim>\<open>datetime.fromtimestamp\<close> depends on the platform
  (time zone, range of \<^verbatim>\<open>time_t\<close>).  Floating-point arithmetic is not part of
  the embedding either: \<open>to_double\<close> stands for the rounding of an exact
  quotient to a double (to nearest, ties to even), which is an OverflowError
  when the quotient of two integers lies beyond the doubles.  The model takes
  the four functions as parameters: every theorem with a free \<open>h\<close> holds for
  any behaviour of them.
\<close>

record helpers =
  snake :: "string \<Rightarrow> string"
  auto_repr :: "pyclass \<Rightarrow> attrs \<Rightarrow> error + string"
  fromtimestamp :: "json \<Rightarrow> error + pyval"
  to_double :: "rat \<Rightarrow> error + rat"

section \<open>Built-ins\<close>

definition truthy :: "json \<Rightarrow> bool" where
  "truthy v = (case v of
       JNull \<Rightarrow> False
     | JBool b \<Rightarrow> b
     | JInt n \<Rightarrow> n \<noteq> 0
     | JFloat r \<Rightarrow> r \<noteq> 0
     | JStr s \<Rightarrow> s \<noteq> []
     | JList xs \<Rightarrow> xs \<noteq> []
     | JObj d \<Rightarrow> d \<noteq> [])"

definition py_len :: "pyval \<Rightarrow> error + nat" where
  "py_len v = (case v of
       PJson (JStr s) \<Rightarrow> Inr (length s)
     | PJson (JList xs) \<Rightarrow> Inr (length xs)
     | PJson (JObj d) \<Rightarrow> Inr (length d)
     | PList xs \<Rightarrow> Inr (length xs)
     | _ \<Rightarrow> Inl TypeError)"

definition class_name :: "pyclass \<Rightarrow> string" where
  "class_name c = (case c of
       CTransfer \<Rightarrow> ''Transfer'' | CPartialOrder \<Rightarrow> ''PartialOrder'' | COrder \<Rightarrow> ''Order''
     | CValidity \<Rightarrow> ''Validity'' | CVolume \<Rightarrow> ''Volume'' | CAsk \<Rightarrow> ''Ask'' | CBid \<Rightarrow> ''Bid''
     | COrderBook \<Rightarrow> ''OrderBook'')"

text \<open>
  \<^verbatim>\<open>setattr(self, name, value)\<close> on an instance of class \<open>c\<close> whose \<^verbatim>\<open>__dict__\<close> is
  \<open>self\<close>.  A data descriptor of the class wins over the instance dictionary:
  \<^verbatim>\<open>json\<close> is a property without setter on \<^verbatim>\<open>PartialOrder\<close> (so on \<^verbatim>\<open>Order\<close>),
  \<^verbatim>\<open>__weakref__\<close> is read-only, \<^verbatim>\<open>__class__\<close> accepts a class only (no value here
  is one), and \<^verbatim>\<open>__dict__\<close> accepts a dictionary, which then replaces every
  attribute (the model copies it; Python shares it with the mapping it came
  from, so the theorems about assigned fields leave out keys that normalize to
  \<^verbatim>\<open>__dict__\<close>).  Any other name is stored in the instance dictionary, also when
  a method of that name exists.
\<close>

definition py_setattr :: "pyclass \<Rightarrow> attrs \<Rightarrow> string \<Rightarrow> pyval \<Rightarrow> error + attrs" where
  "py_setattr c self name v =
     (if name = ''json'' \<and> (c = CPartialOrder \<or> c = COrder) then Inl AttributeError
      else if name = ''__weakref__'' then Inl AttributeError
      else if name = ''__class__'' then Inl TypeError
      else if name = ''__dict__'' then
        (case v of
           PJson (JObj d) \<Rightarrow> Inr (map (\<lambda>(k, x). (k, PJson x)) d)
         | _ \<Rightarrow> Inl TypeError)
      else Inr (AList.update name v self))"

text \<open>
  The call \<^verbatim>\<open>C(**mapping)\<close> of a class with \<^verbatim>\<open>__init__(self, **data)\<close>: the
  name \<^verbatim>\<open>self\<close> is bound to the instance, so a mapping with a key \<^verbatim>\<open>self\<close>
  raises TypeError before the body runs; any other mapping becomes \<^verbatim>\<open>data\<close>.
\<close>

definition bind_kwargs :: "(string \<times> json) list \<Rightarrow> error + (string \<times> json) list" where
  "bind_kwargs m = (if ''self'' \<in> fst ` set m then Inl TypeError else Inr m)"

section \<open>Validity and Volume\<close>

text \<open>
  \<^verbatim>\<open>Validity.__init__\<close>: \<^verbatim>\<open>for k in data: setattr(self, k, datetime.fromtimestamp(data[k]))\<close>.
\<close>

fun Validity_init :: "helpers \<Rightarrow> attrs \<Rightarrow> (string \<times> json) list \<Rightarrow> error + attrs" where
  "Validity_init h self [] = Inr self"
| "Validity_init h self ((k, v) # data) =
     (case fromtimestamp h v of
        Inl e \<Rightarrow> Inl e
      | Inr t \<Rightarrow>
          (case py_setattr CValidity self k t of
             Inl e \<Rightarrow> Inl e
           | Inr self' \<Rightarrow> Validity_init h self' data))"

text \<open>
  The loop \<^verbatim>\<open>for k in data: setattr(self, to_snake_case(k), data[k])\<close>, which is
  the body of \<^verbatim>\<open>Volume.__init__\<close> and of \<^verbatim>\<open>Transfer.__init__\<close> and the last loop
  of \<^verbatim>\<open>PartialOrder.__init__\<close>.
\<close>

fun assign_fields :: "helpers \<Rightarrow> pyclass \<Rightarrow> attrs \<Rightarrow> (string \<times> json) list \<Rightarrow> error + attrs" where
  "assign_fields h c self [] = Inr self"
| "assign_fields h c self ((k, v) # data) =
     (case py_setattr c self (snake h k) (PJson v) of
        Inl e \<Rightarrow> Inl e
      | Inr self' \<Rightarrow> assign_fields h c self' data)"

definition Volume_init :: "helpers \<Rightarrow> attrs \<Rightarrow> (string \<times> json) list \<Rightarrow> error + attrs" where
  "Volume_init h self data = assign_fields h CVolume self data"

text \<open>
  \<^verbatim>\<open>Validity(**v)\<close> and \<^verbatim>\<open>Volume(**v)\<close>: \<^verbatim>\<open>**\<close> wants a mapping, the instance starts
  with an empty \<^verbatim>\<open>__dict__\<close>.
\<close>

definition new_Validity :: "helpers \<Rightarrow> json \<Rightarrow> error + pyval" where
  "new_Validity h v = (case v of
       JObj d \<Rightarrow>
         (case bind_kwargs d of
            Inl e \<Rightarrow> Inl e
          | Inr data \<Rightarrow>
              (case Validity_init h [] data of
                 Inl e \<Rightarrow> Inl e
               | Inr a \<Rightarrow> Inr (PInst CValidity a)))
     | _ \<Rightarrow> Inl TypeError)"

definition new_Volume :: "helpers \<Rightarrow> json \<Rightarrow> error + pyval" where
  "new_Volume h v = (case v of
       JObj d \<Rightarrow>
         (case bind_kwargs d of
            Inl e \<Rightarrow> Inl e
          | Inr data \<Rightarrow>
              (case Volume_init h [] data of
                 Inl e \<Rightarrow> Inl e
               | Inr a \<Rightarrow> Inr (PInst CVolume a)))
     | _ \<Rightarrow> Inl TypeError)"

section \<open>Transfer, PartialOrder, Order\<close>

definition Transfer_init :: "helpers \<Rightarrow> pyclass \<Rightarrow> attrs \<Rightarrow> (string \<times> json) list \<Rightarrow> error + attrs" where
  "Transfer_init h c self data = assign_fields h c self data"

text \<open>
  The property \<^verbatim>\<open>json\<close>: \<^verbatim>\<open>return self.__json\<close>, where the private name is
  mangled to \<^verbatim>\<open>_PartialOrder__json\<close>.
\<close>

definition PartialOrder_json :: "attrs \<Rightarrow> error + pyval" where
  "PartialOrder_json self =
     (case map_of self ''_PartialOrder__json'' of None \<Rightarrow> Inl AttributeError | Some v \<Rightarrow> Inr v)"

text \<open>
  \<^verbatim>\<open>object.__getattribute__\<close> for the names this development reads: the property
  \<^verbatim>\<open>json\<close>, and the names that no class defines (\<^verbatim>\<open>hash\<close>, \<^verbatim>\<open>is_idempotent\<close>,
  \<^verbatim>\<open>status\<close>, ... are annotated without a value, so they exist on an instance only
  once assigned).  Methods and the members of \<^verbatim>\<open>object\<close> are not read through
  this function.
\<close>

definition object_getattribute :: "pyclass \<Rightarrow> attrs \<Rightarrow> string \<Rightarrow> error + pyval" where
  "object_getattribute c self name =
     (if name = ''json'' \<and> (c = CPartialOrder \<or> c = COrder) then PartialOrder_json self
      else (case map_of self name of None \<Rightarrow> Inl AttributeError | Some v \<Rightarrow> Inr v))"

text \<open>
  \<^verbatim>\<open>Order.__getattribute__\<close>: \<^verbatim>\<open>is_idempotent\<close> raises, every other name goes to
  \<^verbatim>\<open>super().__getattribute__\<close>.
\<close>

definition Order_getattribute :: "attrs \<Rightarrow> string \<Rightarrow> error + pyval" where
  "Order_getattribute self name =
     (if name \<in> set [''is_idempotent''] then Inl AttributeError
      else object_getattribute COrder self name)"

definition py_getattr :: "pyclass \<Rightarrow> attrs \<Rightarrow> string \<Rightarrow> error + pyval" where
  "py_getattr c self name =
     (if c = COrder then Order_getattribute self name else object_getattribute c self name)"

text \<open>\<^verbatim>\<open>hasattr\<close> is False exactly when the read raises AttributeError.\<close>

definition hasattr :: "pyclass \<Rightarrow> attrs \<Rightarrow> string \<Rightarrow> error + bool" where
  "hasattr c self name = (case py_getattr c self name of
       Inr _ \<Rightarrow> Inr True
     | Inl AttributeError \<Rightarrow> Inr False
     | Inl e \<Rightarrow> Inl e)"

text \<open>
  \<^verbatim>\<open>PartialOrder._is_error(self, init=None)\<close>.  \<^verbatim>\<open>not init\<close> holds for \<^verbatim>\<open>None\<close> and
  for the empty dictionary.
\<close>

definition is_error :: "pyclass \<Rightarrow> attrs \<Rightarrow> (string \<times> json) list option \<Rightarrow> error + bool" where
  "is_error c self init =
     (if init = None \<or> init = Some [] then
        (case hasattr c self ''hash'' of Inl e \<Rightarrow> Inl e | Inr b \<Rightarrow> Inr (\<not> b))
      else
        (case py_getattr c self ''_PartialOrder__json'' of
           Inl e \<Rightarrow> Inl e
         | Inr v \<Rightarrow> (case py_len v of Inl e \<Rightarrow> Inl e | Inr n \<Rightarrow> Inr (n < 2))))"

text \<open>
  The call \<^verbatim>\<open>self._is_error(...)\<close>: a function of the class is a non-data
  descriptor, so an instance attribute \<^verbatim>\<open>_is_error\<close> shadows the method, and
  calling a decoded JSON value raises TypeError.
\<close>

definition call_is_error :: "pyclass \<Rightarrow> attrs \<Rightarrow> (string \<times> json) list option \<Rightarrow> error + bool" where
  "call_is_error c self init =
     (case map_of self ''_is_error'' of
        Some _ \<Rightarrow> Inl TypeError
      | None \<Rightarrow> is_error c self init)"

text \<open>
  \<^verbatim>\<open>PartialOrder.__init__\<close>, run on an instance of class \<open>c\<close> (\<^verbatim>\<open>PartialOrder\<close>, or
  \<^verbatim>\<open>Order\<close> through \<^verbatim>\<open>super().__init__\<close>).  The line
  \<^verbatim>\<open>self.__annotations__.update(super().__annotations__)\<close> changes the
  annotations of the class and no instance, and is left out (it runs without
  error on the interpreters where an instance reads the \<^verbatim>\<open>__annotations__\<close> of
  its class, those up to Python 3.13).
\<close>

definition PartialOrder_init :: "helpers \<Rightarrow> pyclass \<Rightarrow> attrs \<Rightarrow> (string \<times> json) list \<Rightarrow> error + attrs" where
  "PartialOrder_init h c self data =
     (case py_setattr c self ''_PartialOrder__json'' (PJson (JObj data)) of
        Inl e \<Rightarrow> Inl e
      | Inr s1 \<Rightarrow>
          (case call_is_error c s1 (Some data) of
             Inl e \<Rightarrow> Inl e
           | Inr True \<Rightarrow> Inr s1
           | Inr False \<Rightarrow>
               (case Transfer_init h c s1 data of
                  Inl e \<Rightarrow> Inl e
                | Inr s2 \<Rightarrow> assign_fields h c s2 data)))"

definition PartialOrder_repr :: "helpers \<Rightarrow> attrs \<Rightarrow> error + string" where
  "PartialOrder_repr h self =
     (case call_is_error CPartialOrder self None of
        Inl e \<Rightarrow> Inl e
      | Inr True \<Rightarrow> Inr ''<Incomplete PartialOrder>''
      | Inr False \<Rightarrow> auto_repr h CPartialOrder self)"

text \<open>
  \<^verbatim>\<open>PartialOrder.__str__\<close>, which \<^verbatim>\<open>Order\<close> inherits.  \<^verbatim>\<open>str()\<close> raises TypeError
  when \<^verbatim>\<open>__str__\<close> returns something that is not a string.
\<close>

definition PartialOrder_str :: "pyclass \<Rightarrow> attrs \<Rightarrow> error + string" where
  "PartialOrder_str c self =
     (case call_is_error c self None of
        Inl e \<Rightarrow> Inl e
      | Inr True \<Rightarrow> Inr (''Incomplete '' @ class_name c @ ''.'')
      | Inr False \<Rightarrow>
          (case py_getattr c self ''hash'' of
             Inl e \<Rightarrow> Inl e
           | Inr (PJson (JStr s)) \<Rightarrow> Inr s
           | Inr _ \<Rightarrow> Inl TypeError))"

text \<open>The last loop of \<^verbatim>\<open>Order.__init__\<close>.\<close>

fun Order_fields :: "helpers \<Rightarrow> attrs \<Rightarrow> (string \<times> json) list \<Rightarrow> error + attrs" where
  "Order_fields h self [] = Inr self"
| "Order_fields h self ((k, v) # data) =
     (if k = ''validity'' then
        (case new_Validity h v of
           Inl e \<Rightarrow> Inl e
         | Inr x \<Rightarrow>
             (case py_setattr COrder self k x of
                Inl e \<Rightarrow> Inl e
              | Inr self' \<Rightarrow> Order_fields h self' data))
      else if k = ''volumes'' then
        (case new_Volume h v of
           Inl e \<Rightarrow> Inl e
         | Inr x \<Rightarrow>
             (case py_setattr COrder self k x of
                Inl e \<Rightarrow> Inl e
              | Inr self' \<Rightarrow> Order_fields h self' data))
      else
        (case py_setattr COrder self (snake h k) (PJson v) of
           Inl e \<Rightarrow> Inl e
         | Inr self' \<Rightarrow> Order_fields h self' data))"

text \<open>
  \<^verbatim>\<open>Order.__init__\<close>; its first line is the same update of the annotations of
  the class, left out as above.
\<close>

definition Order_init :: "helpers \<Rightarrow> attrs \<Rightarrow> (string \<times> json) list \<Rightarrow> error + attrs" where
  "Order_init h self data =
     (case PartialOrder_init h COrder self data of
        Inl e \<Rightarrow> Inl e
      | Inr s1 \<Rightarrow>
          (case call_is_error COrder s1 (Some data) of
             Inl e \<Rightarrow> Inl e
           | Inr True \<Rightarrow> Inr s1
           | Inr False \<Rightarrow> Order_fields h s1 data))"

definition Order_repr :: "helpers \<Rightarrow> attrs \<Rightarrow> error + string" where
  "Order_repr h self =
     (case call_is_error COrder self None of
        Inl e \<Rightarrow> Inl e
      | Inr True \<Rightarrow> Inr ''<Incomplete Order>''
      | Inr False \<Rightarrow> auto_repr h COrder self)"

text \<open>
  \<^verbatim>\<open>PartialOrder(**m)\<close> and \<^verbatim>\<open>Order(**m)\<close>: the keyword arguments are bound,
  then \<^verbatim>\<open>__init__\<close> runs on a fresh instance.  The result is the \<^verbatim>\<open>__dict__\<close>
  of the new instance.
\<close>

definition new_PartialOrder :: "helpers \<Rightarrow> (string \<times> json) list \<Rightarrow> error + attrs" where
  "new_PartialOrder h m =
     (case bind_kwargs m of
        Inl e \<Rightarrow> Inl e
      | Inr data \<Rightarrow> PartialOrder_init h CPartialOrder [] data)"

definition new_Order :: "helpers \<Rightarrow> (string \<times> json) list \<Rightarrow> error + attrs" where
  "new_Order h m =
     (case bind_kwargs m of Inl e \<Rightarrow> Inl e | Inr data \<Rightarrow> Order_init h [] data)"

section \<open>Order book\<close>

text \<open>
  \<^verbatim>\<open>int(x)\<close>.  On a string: surrounding whitespace is dropped (tab, line feed,
  vertical tab, form feed, carriage return, space, and beyond ASCII the next
  line character and the no-break space; the separators \<^verbatim>\<open>0x1C\<close> to \<^verbatim>\<open>0x1F\<close>
  are not dropped), then an optional sign, then decimal digits, where a single
  underscore may stand between two digits.  A string with more than 4300
  digits is refused (the default limit of the interpreters since 3.10.7).
  Every refusal is a ValueError.
\<close>

definition is_space :: "char \<Rightarrow> bool" where
  "is_space c = ((of_char c :: nat) \<in> set [9, 10, 11, 12, 13, 32, 133, 160])"

definition digit_of :: "char \<Rightarrow> int option" where
  "digit_of c = map_of (zip ''0123456789'' [0, 1, 2, 3, 4, 5, 6, 7, 8, 9]) c"

fun digits_from :: "string \<Rightarrow> int \<Rightarrow> int option" where
  "digits_from [] n = Some n"
| "digits_from (c # cs) n =
     (case digit_of c of
        Some d \<Rightarrow> digits_from cs (10 * n + d)
      | None \<Rightarrow>
          (if c = CHR ''_'' then
             (case cs of
                [] \<Rightarrow> None
              | c' # cs' \<Rightarrow>
                  (case digit_of c' of
                     Some d \<Rightarrow> digits_from cs' (10 * n + d)
                   | None \<Rightarrow> None))
           else None))"

definition digits :: "string \<Rightarrow> int option" where
  "digits s = (case s of
       [] \<Rightarrow> None
     | c # cs \<Rightarrow> (case digit_of c of Some d \<Rightarrow> digits_from cs d | None \<Rightarrow> None))"

definition strip :: "string \<Rightarrow> string" where
  "strip s = rev (dropWhile is_space (rev (dropWhile is_space s)))"

definition int_of_string :: "string \<Rightarrow> int option" where
  "int_of_string s =
     (if 4300 < length (filter (\<lambda>c. digit_of c \<noteq> None) (strip s)) then None
      else
        (case strip s of
           [] \<Rightarrow> None
         | c # cs \<Rightarrow>
             (if c = CHR ''-'' then map_option uminus (digits cs)
              else if c = CHR ''+'' then digits cs
              else digits (c # cs))))"

definition trunc :: "rat \<Rightarrow> int" where
  "trunc r = (if 0 \<le> r then \<lfloor>r\<rfloor> else \<lceil>r\<rceil>)"

definition py_int :: "json \<Rightarrow> error + int" where
  "py_int v = (case v of
       JInt n \<Rightarrow> Inr n
     | JBool b \<Rightarrow> Inr (if b then 1 else 0)
     | JFloat r \<Rightarrow> Inr (trunc r)
     | JStr s \<Rightarrow> (case int_of_string s of None \<Rightarrow> Inl ValueError | Some n \<Rightarrow> Inr n)
     | _ \<Rightarrow> Inl TypeError)"

text \<open>
  Iterating a decoded value: a list gives its elements, a string its
  characters, a dictionary its keys; nothing else is iterable.
\<close>

definition py_iter :: "json \<Rightarrow> error + json list" where
  "py_iter v = (case v of
       JList xs \<Rightarrow> Inr xs
     | JStr s \<Rightarrow> Inr (map (\<lambda>c. JStr [c]) s)
     | JObj d \<Rightarrow> Inr (map (\<lambda>(k, x). JStr k) d)
     | _ \<Rightarrow> Inl TypeError)"

text \<open>
  \<^verbatim>\<open>_OrderBookOrder.__init__(self, price, size, volume, quantity)\<close>: the
  parameters in the order of the signature, the assignments in the order of
  the body (\<^verbatim>\<open>price\<close>, \<^verbatim>\<open>quantity\<close>, \<^verbatim>\<open>size\<close>, \<^verbatim>\<open>volume\<close>).
\<close>

definition OrderBookOrder_init :: "attrs \<Rightarrow> json \<Rightarrow> json \<Rightarrow> json \<Rightarrow> json \<Rightarrow> error + attrs" where
  "OrderBookOrder_init self price size_arg volume quantity =
     (let s1 = AList.update ''price'' (PJson price) self in
      case py_int quantity of
        Inl e \<Rightarrow> Inl e
      | Inr q \<Rightarrow>
          (let s2 = AList.update ''quantity'' (PJson (JInt q)) s1 in
           case py_int size_arg of
             Inl e \<Rightarrow> Inl e
           | Inr sz \<Rightarrow>
               (let s3 = AList.update ''size'' (PJson (JInt sz)) s2 in
                case py_int volume of
                  Inl e \<Rightarrow> Inl e
                | Inr vol \<Rightarrow> Inr (AList.update ''volume'' (PJson (JInt vol)) s3))))"

text \<open>
  \<^verbatim>\<open>Ask(*a)\<close> and \<^verbatim>\<open>Bid(*b)\<close>: the elements of the array become the positional
  arguments; any number of them other than four is a TypeError.
\<close>

definition new_level :: "pyclass \<Rightarrow> json \<Rightarrow> error + pyval" where
  "new_level c a = (case py_iter a of
       Inl e \<Rightarrow> Inl e
     | Inr [price, size_arg, volume, quantity] \<Rightarrow>
         (case OrderBookOrder_init [] price size_arg volume quantity of
            Inl e \<Rightarrow> Inl e
          | Inr s \<Rightarrow> Inr (PInst c s))
     | Inr _ \<Rightarrow> Inl TypeError)"

fun new_levels :: "pyclass \<Rightarrow> json list \<Rightarrow> error + pyval list" where
  "new_levels c [] = Inr []"
| "new_levels c (a # rest) =
     (case new_level c a of
        Inl e \<Rightarrow> Inl e
      | Inr x \<Rightarrow> (case new_levels c rest of Inl e \<Rightarrow> Inl e | Inr xs \<Rightarrow> Inr (x # xs)))"

text \<open>
  \<^verbatim>\<open>data[k] / 1000\<close>: true division.  On a number the result is the double
  that the exact quotient rounds to, or the OverflowError of an integer too
  large for it (\<open>to_double\<close>); anything else is a TypeError.
\<close>

definition div_1000 :: "helpers \<Rightarrow> json \<Rightarrow> error + json" where
  "div_1000 h v = (case v of
       JInt n \<Rightarrow> (case to_double h (of_int n / 1000) of Inl e \<Rightarrow> Inl e | Inr x \<Rightarrow> Inr (JFloat x))
     | JBool b \<Rightarrow>
         (case to_double h ((if b then 1 else 0) / 1000) of
            Inl e \<Rightarrow> Inl e
          | Inr x \<Rightarrow> Inr (JFloat x))
     | JFloat r \<Rightarrow> (case to_double h (r / 1000) of Inl e \<Rightarrow> Inl e | Inr x \<Rightarrow> Inr (JFloat x))
     | _ \<Rightarrow> Inl TypeError)"

fun OrderBook_init :: "helpers \<Rightarrow> attrs \<Rightarrow> (string \<times> json) list \<Rightarrow> error + attrs" where
  "OrderBook_init h self [] = Inr self"
| "OrderBook_init h self ((k, v) # data) =
     (if k = ''asks'' then
        (case py_iter v of
           Inl e \<Rightarrow> Inl e
         | Inr xs \<Rightarrow>
             (case new_levels CAsk xs of
                Inl e \<Rightarrow> Inl e
              | Inr asks \<Rightarrow>
                  (case py_setattr COrderBook self (snake h k) (PList asks) of
                     Inl e \<Rightarrow> Inl e
                   | Inr self' \<Rightarrow> OrderBook_init h self' data)))
      else if k = ''bids'' then
        (case py_iter v of
           Inl e \<Rightarrow> Inl e
         | Inr xs \<Rightarrow>
             (case new_levels CBid xs of
                Inl e \<Rightarrow> Inl e
              | Inr bids \<Rightarrow>
                  (case py_setattr COrderBook self (snake h k) (PList bids) of
                     Inl e \<Rightarrow> Inl e
                   | Inr self' \<Rightarrow> OrderBook_init h self' data)))
      else if k = ''timestamp'' then
        (case div_1000 h v of
           Inl e \<Rightarrow> Inl e
         | Inr x \<Rightarrow>
             (case fromtimestamp h x of
                Inl e \<Rightarrow> Inl e
              | Inr t \<Rightarrow>
                  (case py_setattr COrderBook self k t of
                     Inl e \<Rightarrow> Inl e
                   | Inr self' \<Rightarrow> OrderBook_init h self' data)))
      else
        (case py_setattr COrderBook self (snake h k) (PJson v) of
           Inl e \<Rightarrow> Inl e
         | Inr self' \<Rightarrow> OrderBook_init h self' data))"

definition new_OrderBook :: "helpers \<Rightarrow> (string \<times> json) list \<Rightarrow> error + attrs" where
  "new_OrderBook h m =
     (case bind_kwargs m of Inl e \<Rightarrow> Inl e | Inr data \<Rightarrow> OrderBook_init h [] data)"

text \<open>
  \<^verbatim>\<open>OrderBook.__len__\<close>: \<^verbatim>\<open>sum(_.quantity for _ in [*self.asks, *self.bids])\<close>.
  An \<^verbatim>\<open>Ask\<close> or \<^verbatim>\<open>Bid\<close> always holds an \<^verbatim>\<open>int\<close> in \<^verbatim>\<open>quantity\<close>; a decoded value
  has no such attribute.
\<close>

definition iter_val :: "pyval \<Rightarrow> error + pyval list" where
  "iter_val v = (case v of
       PList xs \<Rightarrow> Inr xs
     | PJson j \<Rightarrow> (case py_iter j of Inl e \<Rightarrow> Inl e | Inr xs \<Rightarrow> Inr (map PJson xs))
     | _ \<Rightarrow> Inl TypeError)"

definition quantity_of :: "pyval \<Rightarrow> error + int" where
  "quantity_of v = (case v of
       PInst c a \<Rightarrow>
         (case map_of a ''quantity'' of
            None \<Rightarrow> Inl AttributeError
          | Some (PJson (JInt q)) \<Rightarrow> Inr q
          | Some _ \<Rightarrow> Inl TypeError)
     | _ \<Rightarrow> Inl AttributeError)"

fun sum_quantity :: "pyval list \<Rightarrow> int \<Rightarrow> error + int" where
  "sum_quantity [] acc = Inr acc"
| "sum_quantity (x # xs) acc =
     (case quantity_of x of Inl e \<Rightarrow> Inl e | Inr q \<Rightarrow> sum_quantity xs (acc + q))"

definition OrderBook_len :: "attrs \<Rightarrow> error + int" where
  "OrderBook_len self =
     (case py_getattr COrderBook self ''asks'' of
        Inl e \<Rightarrow> Inl e
      | Inr a \<Rightarrow>
          (case iter_val a of
             Inl e \<Rightarrow> Inl e
           | Inr asks \<Rightarrow>
               (case py_getattr COrderBook self ''bids'' of
                  Inl e \<Rightarrow> Inl e
                | Inr b \<Rightarrow>
                    (case iter_val b of
                       Inl e \<Rightarrow> Inl e
                     | Inr bids \<Rightarrow> sum_quantity (asks @ bids) 0))))"

section \<open>Field-name normalization\<close>

text \<open>
  Modelled from the spec: \<^verbatim>\<open>to_snake_case\<close> of \<^verbatim>\<open>loopring/util/helpers.py\<close>, a
  file that is not among the sources.  The spec: ``given a wire field name in
  one casing convention (camelCase), produce the attribute name in another
  convention (snake_case)'', with \<^verbatim>\<open>orderHash\<close> giving \<^verbatim>\<open>order_hash\<close> and
  \<^verbatim>\<open>accountId\<close> giving \<^verbatim>\<open>account_id\<close>: an upper-case letter becomes an
  underscore and the lower-case letter, every other character stays.
\<close>

definition to_lower :: "char \<Rightarrow> char" where
  "to_lower c =
     (case map_of (zip ''ABCDEFGHIJKLMNOPQRSTUVWXYZ'' ''abcdefghijklmnopqrstuvwxyz'') c of
        Some l \<Rightarrow> l
      | None \<Rightarrow> c)"

fun to_snake_case :: "string \<Rightarrow> string" where
  "to_snake_case [] = []"
| "to_snake_case (c # cs) =
     (if c \<in> set ''ABCDEFGHIJKLMNOPQRSTUVWXYZ'' then CHR ''_'' # to_lower c # to_snake_case cs
      else c # to_snake_case cs)"

text \<open>
  The wire field names of this API: the keys that \<^verbatim>\<open>client.py\<close> and
  \<^verbatim>\<open>order.py\<close> write out (\<^verbatim>\<open>accountId\<close>, \<^verbatim>\<open>orderTypes\<close>, \<^verbatim>\<open>tradeChannels\<close>,
  \<^verbatim>\<open>sellTokenId\<close>, \<^verbatim>\<open>orderHash\<close>, \<^verbatim>\<open>orderId\<close>, \<^verbatim>\<open>offchainId\<close>, \<^verbatim>\<open>resultInfo\<close>,
  \<^verbatim>\<open>orders\<close>, \<^verbatim>\<open>validity\<close>, \<^verbatim>\<open>volumes\<close>, \<^verbatim>\<open>asks\<close>, \<^verbatim>\<open>bids\<close>, \<^verbatim>\<open>timestamp\<close>, the
  query parameters) and the camelCase forms of the attributes that the classes
  of \<^verbatim>\<open>order.py\<close> annotate.
\<close>

definition wire_field_names :: "string list" where
  "wire_field_names =
     [''accountId'', ''end'', ''limit'', ''market'', ''offset'', ''orderTypes'', ''side'',
      ''start'', ''status'', ''tradeChannels'', ''sellTokenId'', ''orderHash'', ''orderId'',
      ''offchainId'', ''resultInfo'', ''orders'', ''timestamp'', ''validity'', ''volumes'',
      ''asks'', ''bids'', ''version'', ''hash'', ''isIdempotent'', ''clientOrderId'',
      ''orderType'', ''price'', ''tradeChannel'', ''baseAmount'', ''baseFilled'', ''fee'',
      ''quoteAmount'', ''quoteFilled'', ''walletFactory'', ''walletOwner'', ''walletSalt'']"

text \<open>
  The least magnitude that rounds beyond the largest double:
  \<open>2 ^ 1024 - 2 ^ 970\<close>, written out so that it evaluates at once.
\<close>

definition double_overflow :: rat where
  "double_overflow =
     179769313486231580793728971405303415079934132710037826936173778980444968292764750946649017977587207096330286416692887910946555547851940402630657488671505820681908902000708383676273854845817711531764475730270069855571366959622842914819860834936475292719074168444365510704342711559699508093042880177904174497792"

text \<open>
  One instance of the parameters, to evaluate the constructors on concrete
  mappings: the normalization above, an \<^verbatim>\<open>auto_repr\<close> that prints the class
  name, a \<^verbatim>\<open>fromtimestamp\<close> that accepts every number, and a \<open>to_double\<close> that
  refuses what lies beyond the doubles and rounds nothing.  It is an instance
  and not a description of these functions: no theorem about every \<open>h\<close>
  depends on it.
\<close>

definition sample_helpers :: helpers where
  "sample_helpers =
     \<lparr>snake = to_snake_case,
      auto_repr = (\<lambda>c a. Inr (''<'' @ class_name c @ ''>'')),
      fromtimestamp = (\<lambda>v. case v of
           JInt n \<Rightarrow> Inr (PDatetime (of_int n))
         | JBool b \<Rightarrow> Inr (PDatetime (if b then 1 else 0))
         | JFloat r \<Rightarrow> Inr (PDatetime r)
         | _ \<Rightarrow> Inl TypeError),
      to_double = (\<lambda>r. if double_overflow \<le> \<bar>r\<bar> then Inl OverflowError else Inr r)\<rparr>"

section \<open>Client\<close>

text \<open>
  The client keeps its configuration and an \<^verbatim>\<open>aiohttp\<close> session, of which the
  model keeps the \<^verbatim>\<open>closed\<close> flag.  The network is the list of the requests issued
  so far, threaded through every operation.  What the server answers
  (\<open>respond\<close>: sending, reading and decoding, or the error of any of them), the
  paths of \<^verbatim>\<open>util/enums.py\<close> and \<^verbatim>\<open>raise_errors_in\<close> of \<^verbatim>\<open>util/helpers.py\<close> are
  parameters.  The methods are coroutines: each function below is the awaited
  call.  Opening the session in the constructor is taken to succeed.
\<close>

record client =
  account_id :: json
  api_key :: json
  endpoint :: json
  handle_errors :: bool
  session_closed :: bool

record request =
  url :: string
  headers :: "(string \<times> json) list"
  params :: "(string \<times> json) list"

record transport =
  path_storage_id :: string
  path_order :: string
  respond :: "request \<Rightarrow> error + json"
  raise_errors_in :: "json \<Rightarrow> error option"

text \<open>\<^verbatim>\<open>cfg.get(key)\<close>: only a dictionary has the method.\<close>

definition dict_get :: "json \<Rightarrow> string \<Rightarrow> error + json" where
  "dict_get cfg key = (case cfg of
       JObj d \<Rightarrow> Inr (case map_of d key of None \<Rightarrow> JNull | Some v \<Rightarrow> v)
     | _ \<Rightarrow> Inl AttributeError)"

definition py_or :: "json \<Rightarrow> json \<Rightarrow> json" where
  "py_or a b = (if truthy a then a else b)"

text \<open>
  \<^verbatim>\<open>Client.__init__(account_id=None, api_key=None, endpoint=None, *,
  handle_errors=True, **config)\<close>; \<open>config\<close> is the dictionary of the remaining
  keyword arguments.
\<close>

definition Client_init ::
  "json \<Rightarrow> json \<Rightarrow> json \<Rightarrow> bool \<Rightarrow> (string \<times> json) list \<Rightarrow> request list
     \<Rightarrow> (error + client) \<times> request list" where
  "Client_init account_id_arg api_key_arg endpoint_arg handle_errors_arg config sent =
     (case map_of config ''config'' of
        None \<Rightarrow> (Inl KeyError, sent)
      | Some cfg \<Rightarrow>
          (case dict_get cfg ''account_id'' of
             Inl e \<Rightarrow> (Inl e, sent)
           | Inr a \<Rightarrow>
               if \<not> truthy (py_or a account_id_arg)
               then (Inl (InvalidArguments ''Missing account ID from config.''), sent)
               else
                 (case dict_get cfg ''api_key'' of
                    Inl e \<Rightarrow> (Inl e, sent)
                  | Inr k \<Rightarrow>
                      if \<not> truthy (py_or k api_key_arg)
                      then (Inl (InvalidArguments ''Missing API Key from config.''), sent)
                      else
                        (case dict_get cfg ''endpoint'' of
                           Inl e \<Rightarrow> (Inl e, sent)
                         | Inr p \<Rightarrow>
                             if \<not> truthy (py_or p endpoint_arg)
                             then (Inl (InvalidArguments ''Missing endpoint from config.''), sent)
                             else
                               (Inr \<lparr>account_id = py_or a account_id_arg,
                                     api_key = py_or k api_key_arg,
                                     endpoint = py_or p endpoint_arg,
                                     handle_errors = handle_errors_arg,
                                     session_closed = False\<rparr>, sent)))))"

text \<open>\<^verbatim>\<open>Client.close\<close>: \<^verbatim>\<open>if not self._session.closed: await self._session.close()\<close>.\<close>

definition close :: "client \<Rightarrow> error + client" where
  "close c = (if \<not> session_closed c then Inr (c\<lparr>session_closed := True\<rparr>) else Inr c)"

text \<open>
  \<^verbatim>\<open>self.endpoint + PATH\<close>, and the request itself: a closed session raises
  before anything is sent; otherwise the request is issued and the decoded
  body (or the error of the transport or of the decoder) comes back.
\<close>

definition endpoint_url :: "json \<Rightarrow> string \<Rightarrow> error + string" where
  "endpoint_url e p = (case e of JStr s \<Rightarrow> Inr (s @ p) | _ \<Rightarrow> Inl TypeError)"

definition session_get ::
  "transport \<Rightarrow> client \<Rightarrow> request \<Rightarrow> request list \<Rightarrow> (error + json) \<times> request list" where
  "session_get t c r sent =
     (if session_closed c then (Inl RuntimeError, sent)
      else
        (case respond t r of
           Inl e \<Rightarrow> (Inl e, sent @ [r])
         | Inr content \<Rightarrow>
             (if handle_errors c then
                (case raise_errors_in t content of
                   Some e \<Rightarrow> (Inl e, sent @ [r])
                 | None \<Rightarrow> (Inr content, sent @ [r]))
              else (Inr content, sent @ [r]))))"

definition get_next_storage_id ::
  "transport \<Rightarrow> client \<Rightarrow> json \<Rightarrow> request list \<Rightarrow> (error + json) \<times> request list" where
  "get_next_storage_id t c sell_token_id sent =
     (if \<not> truthy sell_token_id
      then (Inl (InvalidArguments ''Missing 'sellTokenID' argument.''), sent)
      else
        (case endpoint_url (endpoint c) (path_storage_id t) of
           Inl e \<Rightarrow> (Inl e, sent)
         | Inr u \<Rightarrow>
             session_get t c
               \<lparr>url = u,
                headers = [(''X-API-KEY'', api_key c)],
                params = [(''accountId'', account_id c), (''sellTokenId'', sell_token_id)]\<rparr>
               sent))"

definition get_order_details ::
  "helpers \<Rightarrow> transport \<Rightarrow> client \<Rightarrow> json \<Rightarrow> request list \<Rightarrow> (error + attrs) \<times> request list" where
  "get_order_details h t c orderhash sent =
     (if \<not> truthy orderhash
      then (Inl (InvalidArguments ''Missing 'orderhash' argument.''), sent)
      else
        (case endpoint_url (endpoint c) (path_order t) of
           Inl e \<Rightarrow> (Inl e, sent)
         | Inr u \<Rightarrow>
             (case session_get t c
                     \<lparr>url = u,
                      headers = [(''X-API-KEY'', api_key c)],
                      params = [(''accountId'', account_id c), (''orderHash'', orderhash)]\<rparr>
                     sent of
                (Inl e, sent') \<Rightarrow> (Inl e, sent')
              | (Inr content, sent') \<Rightarrow>
                  (case content of
                     JObj d \<Rightarrow> (new_Order h d, sent')
                   | _ \<Rightarrow> (Inl TypeError, sent')))))"

text \<open>Two calls of \<^verbatim>\<open>close\<close> in a row.\<close>

definition close_twice :: "client \<Rightarrow> error + client" where
  "close_twice c = (case close c of Inl e \<Rightarrow> Inl e | Inr c' \<Rightarrow> close c')"

text \<open>
  A transport and a client to evaluate the operations on: a server that answers
  every request with an empty object and reports no error.
\<close>

definition sample_transport :: transport where
  "sample_transport =
     \<lparr>path_storage_id = ''/api/v3/storageId'',
      path_order = ''/api/v3/order'',
      respond = (\<lambda>r. Inr (JObj [])),
      raise_errors_in = (\<lambda>content. None)\<rparr>"

definition sample_client :: client where
  "sample_client =
     \<lparr>account_id = JInt 12345,
      api_key = JStr ''key'',
      endpoint = JStr ''https://api3.loopring.io'',
      handle_errors = True,
      session_closed = False\<rparr>"

section \<open>The overflow bound\<close>

lemma double_overflow_value: "double_overflow = 2 ^ 1024 - 2 ^ 970"
  by (simp add: double_overflow_def)

section \<open>Attribute names after construction\<close>

lemma py_setattr_keys:
  assumes "py_setattr c self name v = Inr s" and "name \<noteq> ''__dict__''"
  shows "fst ` set s = insert name (fst ` set self)"
proof -
  from assms have "s = AList.update name v self"
    by (simp add: py_setattr_def split: if_splits)
  then show ?thesis by (simp add: dom_update)
qed

lemma assign_fields_keys:
  "assign_fields h c self data = Inr s \<Longrightarrow> \<forall>k\<in>fst ` set data. snake h k \<noteq> ''__dict__''
   \<Longrightarrow> fst ` set s = fst ` set self \<union> snake h ` fst ` set data"
proof (induction data arbitrary: self)
  case Nil
  then show ?case by simp
next
  case (Cons kv data)
  obtain k v where kv: "kv = (k, v)" by (cases kv)
  from Cons.prems(1) kv obtain s1 where
    s1: "py_setattr c self (snake h k) (PJson v) = Inr s1" and rest: "assign_fields h c s1 data = Inr s"
    by (auto split: sum.splits)
  from Cons.prems(2) kv have nd: "snake h k \<noteq> ''__dict__''"
    and nds: "\<forall>k\<in>fst ` set data. snake h k \<noteq> ''__dict__''"
    by auto
  from py_setattr_keys[OF s1 nd] Cons.IH[OF rest nds] kv show ?case by auto
qed

lemma assign_fields_returns:
  "\<forall>k\<in>fst ` set data. snake h k \<notin> {''json'', ''__weakref__'', ''__class__'', ''__dict__''}
   \<Longrightarrow> \<exists>s. assign_fields h c self data = Inr s"
proof (induction data arbitrary: self)
  case Nil
  then show ?case by simp
next
  case (Cons kv data)
  obtain k v where kv: "kv = (k, v)" by (cases kv)
  let ?s = "AList.update (snake h k) (PJson v) self"
  from Cons.prems kv have "py_setattr c self (snake h k) (PJson v) = Inr ?s"
    by (simp add: py_setattr_def)
  moreover from Cons.prems have "\<exists>s. assign_fields h c ?s data = Inr s"
    by (intro Cons.IH) simp
  ultimately show ?case using kv by simp
qed

lemma Order_fields_keys:
  "Order_fields h self data = Inr s \<Longrightarrow> \<forall>k\<in>fst ` set data. snake h k \<noteq> ''__dict__''
   \<Longrightarrow> fst ` set s = fst ` set self \<union>
         (\<lambda>k. if k = ''validity'' \<or> k = ''volumes'' then k else snake h k) ` fst ` set data"
proof (induction data arbitrary: self)
  case Nil
  then show ?case by simp
next
  case (Cons kv data)
  obtain k v where kv: "kv = (k, v)" by (cases kv)
  let ?n = "if k = ''validity'' \<or> k = ''volumes'' then k else snake h k"
  from Cons.prems(1) kv obtain x s1 where
    s1: "py_setattr COrder self ?n x = Inr s1" and rest: "Order_fields h s1 data = Inr s"
    by (auto split: sum.splits if_splits)
  from Cons.prems(2) kv have nd: "?n \<noteq> ''__dict__''"
    and nds: "\<forall>k\<in>fst ` set data. snake h k \<noteq> ''__dict__''"
    by auto
  from py_setattr_keys[OF s1 nd] Cons.IH[OF rest nds] kv show ?case by auto
qed

section \<open>Reading attributes and the placeholder test\<close>

lemma lookup_keys:
  "(case map_of xs k of None \<Rightarrow> a | Some v \<Rightarrow> b v) =
     (if k \<in> fst ` set xs then b (the (map_of xs k)) else a)"
proof (cases "k \<in> fst ` set xs")
  case True
  then have "map_of xs k \<noteq> None" by (simp add: map_of_eq_None_iff)
  then obtain v where "map_of xs k = Some v" by blast
  with True show ?thesis by simp
next
  case False
  then have "map_of xs k = None" by (simp add: map_of_eq_None_iff)
  with False show ?thesis by simp
qed

lemma getattr_plain:
  "name \<noteq> ''json'' \<Longrightarrow> name \<noteq> ''is_idempotent'' \<Longrightarrow>
   py_getattr c self name = (case map_of self name of None \<Rightarrow> Inl AttributeError | Some v \<Rightarrow> Inr v)"
  by (simp add: py_getattr_def Order_getattribute_def object_getattribute_def)

lemma getattr_hash_keys:
  "(\<exists>v. py_getattr c self ''hash'' = Inr v) = (''hash'' \<in> fst ` set self)"
  "(py_getattr c self ''hash'' = Inl AttributeError) = (''hash'' \<notin> fst ` set self)"
  by (simp_all add: getattr_plain lookup_keys)

lemma is_error_None:
  "is_error c self None = Inr (''hash'' \<notin> fst ` set self)"
  by (simp add: is_error_def hasattr_def getattr_plain lookup_keys)

lemma call_is_error_None:
  "call_is_error c self None =
     (if ''_is_error'' \<in> fst ` set self then Inl TypeError else Inr (''hash'' \<notin> fst ` set self))"
  by (simp add: call_is_error_def is_error_None lookup_keys)

lemma is_error_count:
  "data \<noteq> [] \<Longrightarrow>
   is_error c [(''_PartialOrder__json'', PJson (JObj data))] (Some data) = Inr (length data < 2)"
  by (simp add: is_error_def getattr_plain py_len_def)

lemma placeholder_slot:
  "length data < 2 \<Longrightarrow>
   call_is_error c [(''_PartialOrder__json'', PJson (JObj data))] (Some data) = Inr True"
proof (cases "data = []")
  case True
  then show ?thesis by (simp add: call_is_error_def is_error_def hasattr_def getattr_plain)
next
  case False
  assume "length data < 2"
  with False show ?thesis by (simp add: call_is_error_def is_error_count)
qed

lemma many_keys_slot:
  "2 \<le> length data \<Longrightarrow>
   call_is_error c [(''_PartialOrder__json'', PJson (JObj data))] (Some data) = Inr False"
proof -
  assume two: "2 \<le> length data"
  then have "data \<noteq> []" by auto
  with two show ?thesis by (simp add: call_is_error_def is_error_count)
qed

section \<open>The constructors\<close>

lemma new_PartialOrder_kw:
  "''self'' \<notin> fst ` set data \<Longrightarrow>
   new_PartialOrder h data = PartialOrder_init h CPartialOrder [] data"
  by (simp add: new_PartialOrder_def bind_kwargs_def)

lemma new_Order_kw:
  "''self'' \<notin> fst ` set data \<Longrightarrow> new_Order h data = Order_init h [] data"
  by (simp add: new_Order_def bind_kwargs_def)

lemma PartialOrder_init_placeholder:
  "length data < 2 \<Longrightarrow>
   PartialOrder_init h c [] data = Inr [(''_PartialOrder__json'', PJson (JObj data))]"
  by (simp add: PartialOrder_init_def py_setattr_def placeholder_slot)

lemma Order_init_placeholder:
  "length data < 2 \<Longrightarrow>
   Order_init h [] data = Inr [(''_PartialOrder__json'', PJson (JObj data))]"
  by (simp add: Order_init_def PartialOrder_init_placeholder placeholder_slot)

lemma PartialOrder_init_keys:
  assumes "2 \<le> length data" and "PartialOrder_init h c [] data = Inr s"
    and nd: "\<forall>k\<in>fst ` set data. snake h k \<noteq> ''__dict__''"
  shows "fst ` set s = insert ''_PartialOrder__json'' (snake h ` fst ` set data)"
proof -
  let ?s1 = "[(''_PartialOrder__json'', PJson (JObj data))]"
  from assms(1,2) obtain s2 where
    s2: "assign_fields h c ?s1 data = Inr s2" and s: "assign_fields h c s2 data = Inr s"
    by (auto simp: PartialOrder_init_def py_setattr_def many_keys_slot Transfer_init_def
        split: sum.splits)
  from assign_fields_keys[OF s2 nd] assign_fields_keys[OF s nd] show ?thesis by auto
qed

lemma PartialOrder_init_returns:
  assumes "2 \<le> length data"
    and plain: "\<forall>k\<in>fst ` set data. snake h k \<notin> {''json'', ''__weakref__'', ''__class__'', ''__dict__''}"
  shows "\<exists>s. PartialOrder_init h c [] data = Inr s"
proof -
  let ?s1 = "[(''_PartialOrder__json'', PJson (JObj data))]"
  from assign_fields_returns[OF plain] obtain s2 where s2: "assign_fields h c ?s1 data = Inr s2"
    by blast
  from assign_fields_returns[OF plain] obtain s where s: "assign_fields h c s2 data = Inr s"
    by blast
  from assms(1) s2 s have "PartialOrder_init h c [] data = Inr s"
    by (simp add: PartialOrder_init_def py_setattr_def many_keys_slot Transfer_init_def)
  then show ?thesis by blast
qed

lemma Order_init_attr:
  assumes "2 \<le> length data" and "Order_init h [] data = Inr s"
    and nd: "\<forall>k\<in>fst ` set data. snake h k \<noteq> ''__dict__''"
    and n: "n \<noteq> ''_PartialOrder__json''" "n \<noteq> ''validity''" "n \<noteq> ''volumes''"
  shows "(n \<in> fst ` set s) = (n \<in> snake h ` fst ` set data)"
proof -
  from assms(2) obtain s1 where s1: "PartialOrder_init h COrder [] data = Inr s1"
    and s: "s = s1 \<or> Order_fields h s1 data = Inr s"
    by (auto simp: Order_init_def split: sum.splits bool.splits)
  have k1: "fst ` set s1 = insert ''_PartialOrder__json'' (snake h ` fst ` set data)"
    by (rule PartialOrder_init_keys[OF assms(1) s1 nd])
  from s show ?thesis
  proof
    assume "s = s1"
    with k1 n show ?thesis by auto
  next
    assume "Order_fields h s1 data = Inr s"
    from Order_fields_keys[OF this nd] k1 n show ?thesis by auto
  qed
qed

section \<open>Placeholder objects\<close>

text \<open>
  Claim C4.  For every mapping with fewer than two keys (a keyword mapping:
  no key \<^verbatim>\<open>self\<close>, which the call itself rejects), \<^verbatim>\<open>PartialOrder\<close> and
  \<^verbatim>\<open>Order\<close> return before any field is assigned: the \<^verbatim>\<open>__dict__\<close> of the new
  object holds the raw mapping under \<^verbatim>\<open>_PartialOrder__json\<close> and nothing else
  (no \<^verbatim>\<open>hash\<close>, \<^verbatim>\<open>status\<close>, \<^verbatim>\<open>market\<close>, \<^verbatim>\<open>validity\<close>, \<^verbatim>\<open>volumes\<close>), and the
  property \<^verbatim>\<open>json\<close> gives the mapping back.  This holds for every
  normalization \<open>snake h\<close>, also one under which an assignment would raise: no
  assignment is attempted.
\<close>

theorem placeholder_stores_only_raw_mapping:
  assumes "length data < 2" and "''self'' \<notin> fst ` set data"
  shows "new_PartialOrder h data = Inr [(''_PartialOrder__json'', PJson (JObj data))]
       \<and> new_Order h data = Inr [(''_PartialOrder__json'', PJson (JObj data))]
       \<and> py_getattr CPartialOrder [(''_PartialOrder__json'', PJson (JObj data))] ''json''
           = Inr (PJson (JObj data))
       \<and> py_getattr COrder [(''_PartialOrder__json'', PJson (JObj data))] ''json''
           = Inr (PJson (JObj data))"
  using assms
  by (simp add: new_PartialOrder_kw new_Order_kw PartialOrder_init_placeholder
      Order_init_placeholder py_getattr_def Order_getattribute_def object_getattribute_def
      PartialOrder_json_def)

theorem placeholder_stores_only_raw_mapping_witness:
  "length [(''resultInfo'', JObj [(''code'', JInt 100001)])] < 2
   \<and> new_PartialOrder sample_helpers [(''resultInfo'', JObj [(''code'', JInt 100001)])]
       = Inr [(''_PartialOrder__json'', PJson (JObj [(''resultInfo'', JObj [(''code'', JInt 100001)])]))]
   \<and> new_Order sample_helpers [(''resultInfo'', JObj [(''code'', JInt 100001)])]
       = Inr [(''_PartialOrder__json'', PJson (JObj [(''resultInfo'', JObj [(''code'', JInt 100001)])]))]
   \<and> py_getattr COrder
         [(''_PartialOrder__json'', PJson (JObj [(''resultInfo'', JObj [(''code'', JInt 100001)])]))]
         ''json''
       = Inr (PJson (JObj [(''resultInfo'', JObj [(''code'', JInt 100001)])]))"
  using placeholder_stores_only_raw_mapping
    [of "[(''resultInfo'', JObj [(''code'', JInt 100001)])]" sample_helpers]
  by simp

text \<open>
  Claim C1, as amended.  Mappings are keyword mappings (no key \<^verbatim>\<open>self\<close>, which
  the call itself rejects).  A mapping with no key or one key gives a placeholder:
  \<^verbatim>\<open>repr\<close> and \<^verbatim>\<open>str\<close> return the incompleteness text and reading \<^verbatim>\<open>hash\<close>
  raises AttributeError.  For a mapping with two or more keys the claim needs
  a key that normalizes to \<^verbatim>\<open>hash\<close>: then (no key normalizing to a name that
  \<^verbatim>\<open>setattr\<close> treats specially or to \<^verbatim>\<open>_is_error\<close>) \<^verbatim>\<open>PartialOrder\<close> returns an
  object, and every object that \<^verbatim>\<open>PartialOrder\<close> or \<^verbatim>\<open>Order\<close> returns passes the
  placeholder test of the rendering as complete, has \<^verbatim>\<open>auto_repr\<close> as its
  \<^verbatim>\<open>repr\<close>, and has a readable \<^verbatim>\<open>hash\<close>.
\<close>

theorem placeholder_below_two_keys:
  "(length data < 2 \<and> ''self'' \<notin> fst ` set data \<longrightarrow>
      (\<exists>obj. new_PartialOrder h data = Inr obj
          \<and> PartialOrder_repr h obj = Inr ''<Incomplete PartialOrder>''
          \<and> PartialOrder_str CPartialOrder obj = Inr ''Incomplete PartialOrder.''
          \<and> py_getattr CPartialOrder obj ''hash'' = Inl AttributeError)
    \<and> (\<exists>obj. new_Order h data = Inr obj
          \<and> Order_repr h obj = Inr ''<Incomplete Order>''
          \<and> PartialOrder_str COrder obj = Inr ''Incomplete Order.''
          \<and> py_getattr COrder obj ''hash'' = Inl AttributeError))
   \<and> (2 \<le> length data \<and> ''self'' \<notin> fst ` set data
        \<and> (\<exists>k\<in>fst ` set data. snake h k = ''hash'')
        \<and> (\<forall>k\<in>fst ` set data. snake h k \<notin>
              {''json'', ''__weakref__'', ''__class__'', ''__dict__'', ''_is_error''}) \<longrightarrow>
      (\<exists>obj. new_PartialOrder h data = Inr obj)
    \<and> (\<forall>obj. new_PartialOrder h data = Inr obj \<longrightarrow>
            call_is_error CPartialOrder obj None = Inr False
          \<and> PartialOrder_repr h obj = auto_repr h CPartialOrder obj
          \<and> (\<exists>v. py_getattr CPartialOrder obj ''hash'' = Inr v))
    \<and> (\<forall>obj. new_Order h data = Inr obj \<longrightarrow>
            call_is_error COrder obj None = Inr False
          \<and> Order_repr h obj = auto_repr h COrder obj
          \<and> (\<exists>v. py_getattr COrder obj ''hash'' = Inr v)))"
proof (intro conjI impI)
  let ?p = "[(''_PartialOrder__json'', PJson (JObj data))]"
  have test: "call_is_error c ?p None = Inr True" for c
    by (simp add: call_is_error_None)
  have no_hash: "py_getattr c ?p ''hash'' = Inl AttributeError" for c
    by (simp add: getattr_hash_keys)
  {
    assume few: "length data < 2 \<and> ''self'' \<notin> fst ` set data"
    have "new_PartialOrder h data = Inr ?p"
      using few by (simp add: new_PartialOrder_kw PartialOrder_init_placeholder)
    moreover have "PartialOrder_repr h ?p = Inr ''<Incomplete PartialOrder>''"
      by (simp add: PartialOrder_repr_def test)
    moreover have "PartialOrder_str CPartialOrder ?p = Inr ''Incomplete PartialOrder.''"
      by (simp add: PartialOrder_str_def test class_name_def)
    ultimately show "\<exists>obj. new_PartialOrder h data = Inr obj
          \<and> PartialOrder_repr h obj = Inr ''<Incomplete PartialOrder>''
          \<and> PartialOrder_str CPartialOrder obj = Inr ''Incomplete PartialOrder.''
          \<and> py_getattr CPartialOrder obj ''hash'' = Inl AttributeError"
      using no_hash by blast
    have "new_Order h data = Inr ?p"
      using few by (simp add: new_Order_kw Order_init_placeholder)
    moreover have "Order_repr h ?p = Inr ''<Incomplete Order>''"
      by (simp add: Order_repr_def test)
    moreover have "PartialOrder_str COrder ?p = Inr ''Incomplete Order.''"
      by (simp add: PartialOrder_str_def test class_name_def)
    ultimately show "\<exists>obj. new_Order h data = Inr obj
          \<and> Order_repr h obj = Inr ''<Incomplete Order>''
          \<and> PartialOrder_str COrder obj = Inr ''Incomplete Order.''
          \<and> py_getattr COrder obj ''hash'' = Inl AttributeError"
      using no_hash by blast
  }
  {
    assume many: "2 \<le> length data \<and> ''self'' \<notin> fst ` set data
        \<and> (\<exists>k\<in>fst ` set data. snake h k = ''hash'')
        \<and> (\<forall>k\<in>fst ` set data. snake h k \<notin>
              {''json'', ''__weakref__'', ''__class__'', ''__dict__'', ''_is_error''})"
    then have two: "2 \<le> length data" and kw: "''self'' \<notin> fst ` set data"
      by simp_all
    from many have hash_key: "''hash'' \<in> snake h ` fst ` set data"
      by force
    from many have not_shadowed: "''_is_error'' \<notin> snake h ` fst ` set data"
      by force
    from many have plain: "\<forall>k\<in>fst ` set data. snake h k \<notin>
              {''json'', ''__weakref__'', ''__class__'', ''__dict__''}"
      by simp
    from many have nd: "\<forall>k\<in>fst ` set data. snake h k \<noteq> ''__dict__''"
      by simp
    show "\<exists>obj. new_PartialOrder h data = Inr obj"
      unfolding new_PartialOrder_kw[OF kw] by (rule PartialOrder_init_returns[OF two plain])
    show "\<forall>obj. new_PartialOrder h data = Inr obj \<longrightarrow>
            call_is_error CPartialOrder obj None = Inr False
          \<and> PartialOrder_repr h obj = auto_repr h CPartialOrder obj
          \<and> (\<exists>v. py_getattr CPartialOrder obj ''hash'' = Inr v)"
    proof (intro allI impI)
      fix obj assume "new_PartialOrder h data = Inr obj"
      then have "fst ` set obj = insert ''_PartialOrder__json'' (snake h ` fst ` set data)"
        unfolding new_PartialOrder_kw[OF kw] by (rule PartialOrder_init_keys[OF two _ nd])
      with hash_key not_shadowed
      have keys: "''hash'' \<in> fst ` set obj" "''_is_error'' \<notin> fst ` set obj"
        by auto
      then have t: "call_is_error CPartialOrder obj None = Inr False"
        by (simp add: call_is_error_None)
      then show "call_is_error CPartialOrder obj None = Inr False
          \<and> PartialOrder_repr h obj = auto_repr h CPartialOrder obj
          \<and> (\<exists>v. py_getattr CPartialOrder obj ''hash'' = Inr v)"
        using keys by (simp add: PartialOrder_repr_def getattr_hash_keys)
    qed
    show "\<forall>obj. new_Order h data = Inr obj \<longrightarrow>
            call_is_error COrder obj None = Inr False
          \<and> Order_repr h obj = auto_repr h COrder obj
          \<and> (\<exists>v. py_getattr COrder obj ''hash'' = Inr v)"
    proof (intro allI impI)
      fix obj assume "new_Order h data = Inr obj"
      then have made: "Order_init h [] data = Inr obj"
        by (simp add: new_Order_kw[OF kw])
      have "(''hash'' \<in> fst ` set obj) = (''hash'' \<in> snake h ` fst ` set data)"
        by (rule Order_init_attr[OF two made nd]) simp_all
      moreover have "(''_is_error'' \<in> fst ` set obj) = (''_is_error'' \<in> snake h ` fst ` set data)"
        by (rule Order_init_attr[OF two made nd]) simp_all
      ultimately have keys: "''hash'' \<in> fst ` set obj" "''_is_error'' \<notin> fst ` set obj"
        using hash_key not_shadowed by auto
      then have t: "call_is_error COrder obj None = Inr False"
        by (simp add: call_is_error_None)
      then show "call_is_error COrder obj None = Inr False
          \<and> Order_repr h obj = auto_repr h COrder obj
          \<and> (\<exists>v. py_getattr COrder obj ''hash'' = Inr v)"
        using keys by (simp add: Order_repr_def getattr_hash_keys)
    qed
  }
qed

theorem placeholder_below_two_keys_witness:
  "new_PartialOrder sample_helpers [(''resultInfo'', JObj [(''code'', JInt 104001)])]
     = Inr [(''_PartialOrder__json'', PJson (JObj [(''resultInfo'', JObj [(''code'', JInt 104001)])]))]
   \<and> PartialOrder_repr sample_helpers
         [(''_PartialOrder__json'', PJson (JObj [(''resultInfo'', JObj [(''code'', JInt 104001)])]))]
       = Inr ''<Incomplete PartialOrder>''
   \<and> new_Order sample_helpers
         [(''hash'', JStr ''0xabc''), (''status'', JStr ''processed''),
          (''validity'', JObj [(''start'', JInt 1600000000), (''end'', JInt 1700000000)])]
       = Inr [(''_PartialOrder__json'', PJson (JObj
                [(''hash'', JStr ''0xabc''), (''status'', JStr ''processed''),
                 (''validity'', JObj [(''start'', JInt 1600000000), (''end'', JInt 1700000000)])])),
              (''hash'', PJson (JStr ''0xabc'')),
              (''status'', PJson (JStr ''processed'')),
              (''validity'', PInst CValidity
                 [(''start'', PDatetime 1600000000), (''end'', PDatetime 1700000000)])]
   \<and> call_is_error COrder
         [(''_PartialOrder__json'', PJson (JObj
                [(''hash'', JStr ''0xabc''), (''status'', JStr ''processed''),
                 (''validity'', JObj [(''start'', JInt 1600000000), (''end'', JInt 1700000000)])])),
          (''hash'', PJson (JStr ''0xabc'')),
          (''status'', PJson (JStr ''processed'')),
          (''validity'', PInst CValidity
             [(''start'', PDatetime 1600000000), (''end'', PDatetime 1700000000)])]
         None
       = Inr False"
proof -
  let ?d1 = "[(''resultInfo'', JObj [(''code'', JInt 104001)])]"
  let ?d2 = "[(''hash'', JStr ''0xabc''), (''status'', JStr ''processed''),
              (''validity'', JObj [(''start'', JInt 1600000000), (''end'', JInt 1700000000)])]"
  let ?o2 = "[(''_PartialOrder__json'', PJson (JObj ?d2)),
              (''hash'', PJson (JStr ''0xabc'')),
              (''status'', PJson (JStr ''processed'')),
              (''validity'', PInst CValidity
                 [(''start'', PDatetime 1600000000), (''end'', PDatetime 1700000000)])]"
  have few: "length ?d1 < 2 \<and> ''self'' \<notin> fst ` set ?d1" by simp
  have p1: "new_PartialOrder sample_helpers ?d1 = Inr [(''_PartialOrder__json'', PJson (JObj ?d1))]"
    using few by (simp add: new_PartialOrder_kw PartialOrder_init_placeholder)
  from placeholder_below_two_keys [of ?d1 sample_helpers] few p1
  have r1: "PartialOrder_repr sample_helpers [(''_PartialOrder__json'', PJson (JObj ?d1))]
              = Inr ''<Incomplete PartialOrder>''"
    by auto
  have many: "2 \<le> length ?d2 \<and> ''self'' \<notin> fst ` set ?d2
        \<and> (\<exists>k\<in>fst ` set ?d2. snake sample_helpers k = ''hash'')
        \<and> (\<forall>k\<in>fst ` set ?d2. snake sample_helpers k \<notin>
              {''json'', ''__weakref__'', ''__class__'', ''__dict__'', ''_is_error''})"
    by (simp add: sample_helpers_def)
  have o2: "new_Order sample_helpers ?d2 = Inr ?o2"
    by code_simp
  from placeholder_below_two_keys [of ?d2 sample_helpers] many o2
  have "call_is_error COrder ?o2 None = Inr False"
    by blast
  with p1 r1 o2 show ?thesis by simp
qed

theorem two_keys_without_hash_counterexample:
  "length [(''status'', JStr ''processing''), (''market'', JStr ''LRC-ETH'')] = 2
   \<and> new_PartialOrder sample_helpers [(''status'', JStr ''processing''), (''market'', JStr ''LRC-ETH'')]
       = Inr [(''_PartialOrder__json'',
                PJson (JObj [(''status'', JStr ''processing''), (''market'', JStr ''LRC-ETH'')])),
              (''status'', PJson (JStr ''processing'')),
              (''market'', PJson (JStr ''LRC-ETH''))]
   \<and> py_getattr CPartialOrder
         [(''_PartialOrder__json'',
            PJson (JObj [(''status'', JStr ''processing''), (''market'', JStr ''LRC-ETH'')])),
          (''status'', PJson (JStr ''processing'')),
          (''market'', PJson (JStr ''LRC-ETH''))]
         ''hash''
       = Inl AttributeError
   \<and> new_Order sample_helpers [(''status'', JStr ''processing''), (''market'', JStr ''LRC-ETH'')]
       = Inr [(''_PartialOrder__json'',
                PJson (JObj [(''status'', JStr ''processing''), (''market'', JStr ''LRC-ETH'')])),
              (''status'', PJson (JStr ''processing'')),
              (''market'', PJson (JStr ''LRC-ETH''))]
   \<and> py_getattr COrder
         [(''_PartialOrder__json'',
            PJson (JObj [(''status'', JStr ''processing''), (''market'', JStr ''LRC-ETH'')])),
          (''status'', PJson (JStr ''processing'')),
          (''market'', PJson (JStr ''LRC-ETH''))]
         ''hash''
       = Inl AttributeError"
  by code_simp







section \<open>The hidden attribute of Order\<close>

text \<open>
  Claim C2.  On an \<^verbatim>\<open>Order\<close>, whatever its \<^verbatim>\<open>__dict__\<close> holds (a placeholder,
  a populated order, with or without an \<^verbatim>\<open>is_idempotent\<close> entry), reading
  \<^verbatim>\<open>is_idempotent\<close> raises AttributeError, so \<^verbatim>\<open>hasattr\<close> is False.
\<close>

theorem Order_hides_is_idempotent:
  "Order_getattribute self ''is_idempotent'' = Inl AttributeError
   \<and> py_getattr COrder self ''is_idempotent'' = Inl AttributeError
   \<and> hasattr COrder self ''is_idempotent'' = Inr False"
  by (simp add: Order_getattribute_def py_getattr_def hasattr_def)

text \<open>
  The same mapping gives a \<^verbatim>\<open>PartialOrder\<close> on which the attribute reads, and an
  \<^verbatim>\<open>Order\<close> that stores it and does not give it out.
\<close>

lemma is_idempotent_stored_and_hidden:
  "new_PartialOrder sample_helpers [(''hash'', JStr ''0xabc''), (''isIdempotent'', JBool False)]
     = Inr [(''_PartialOrder__json'',
              PJson (JObj [(''hash'', JStr ''0xabc''), (''isIdempotent'', JBool False)])),
            (''hash'', PJson (JStr ''0xabc'')), (''is_idempotent'', PJson (JBool False))]"
  "py_getattr CPartialOrder
       [(''_PartialOrder__json'',
          PJson (JObj [(''hash'', JStr ''0xabc''), (''isIdempotent'', JBool False)])),
        (''hash'', PJson (JStr ''0xabc'')), (''is_idempotent'', PJson (JBool False))]
       ''is_idempotent''
     = Inr (PJson (JBool False))"
  "new_Order sample_helpers [(''hash'', JStr ''0xabc''), (''isIdempotent'', JBool False)]
     = Inr [(''_PartialOrder__json'',
              PJson (JObj [(''hash'', JStr ''0xabc''), (''isIdempotent'', JBool False)])),
            (''hash'', PJson (JStr ''0xabc'')), (''is_idempotent'', PJson (JBool False))]"
  by code_simp+

section \<open>Order book\<close>

lemma digit_of_digit:
  "c \<in> set ''0123456789'' \<Longrightarrow> digit_of c = Some (of_char c - 48)"
  by (auto simp: digit_of_def)

lemma digit_not_space:
  "c \<in> set ''0123456789'' \<Longrightarrow> \<not> is_space c"
  by (auto simp: is_space_def)

lemma digits_from_digits:
  "set s \<subseteq> set ''0123456789'' \<Longrightarrow>
   digits_from s n = Some (foldl (\<lambda>a ch. 10 * a + (of_char ch - 48)) n s)"
proof (induction s arbitrary: n)
  case Nil
  then show ?case by simp
next
  case (Cons c s)
  then have c: "c \<in> set ''0123456789''" and s: "set s \<subseteq> set ''0123456789''"
    by simp_all
  from digit_of_digit[OF c] Cons.IH[OF s] show ?case by simp
qed

lemma dropWhile_keeps:
  "xs \<noteq> [] \<Longrightarrow> \<not> P (hd xs) \<Longrightarrow> dropWhile P xs = xs"
  by (cases xs) simp_all

lemma strip_unchanged:
  assumes "s \<noteq> []" and "\<not> is_space (hd s)" and "\<not> is_space (last s)"
  shows "strip s = s"
proof -
  have "dropWhile is_space s = s"
    using assms(1,2) by (rule dropWhile_keeps)
  moreover have "dropWhile is_space (rev s) = rev s"
    using assms(1,3) by (intro dropWhile_keeps) (simp_all add: hd_rev)
  ultimately show ?thesis by (simp add: strip_def)
qed

lemma int_of_digit_string:
  assumes "s \<noteq> []" and digs: "set s \<subseteq> set ''0123456789''" and "length s \<le> 4300"
  shows "int_of_string s = Some (foldl (\<lambda>a ch. 10 * a + (of_char ch - 48)) 0 s)"
proof -
  from assms(1) obtain c cs where s: "s = c # cs" by (cases s) auto
  from assms(1) digs have "hd s \<in> set ''0123456789''" and "last s \<in> set ''0123456789''"
    by (auto simp del: set_simps dest: hd_in_set last_in_set)
  then have "strip s = s"
    using assms(1) by (intro strip_unchanged digit_not_space)
  moreover have "length (filter (\<lambda>c. digit_of c \<noteq> None) s) \<le> 4300"
    using assms(3) by (rule order_trans[OF length_filter_le])
  moreover from digs s have c: "c \<in> set ''0123456789''" and cs: "set cs \<subseteq> set ''0123456789''"
    by simp_all
  moreover from c have "c \<noteq> CHR ''-''" and "c \<noteq> CHR ''+''"
    by auto
  ultimately show ?thesis
    using digit_of_digit[OF c] digits_from_digits[OF cs]
    by (simp add: int_of_string_def s digits_def)
qed

lemma digits_from_no_point:
  "digits_from s n = Some m \<Longrightarrow> CHR ''.'' \<notin> set s"
proof (induction s n rule: digits_from.induct)
  case (1 n)
  then show ?case by simp
next
  case (2 c cs n)
  have point: "digit_of CHR ''.'' = None"
    by (simp add: digit_of_def)
  show ?case
  proof (cases "digit_of c")
    case (Some d)
    with 2 point show ?thesis by auto
  next
    case None
    with "2.prems" obtain c' cs' d where \<open>c = CHR ''_''\<close> and cs: "cs = c' # cs'"
      and d: "digit_of c' = Some d" and rest: "digits_from cs' (10 * n + d) = Some m"
      by (auto split: if_splits list.splits option.splits)
    from "2.IH"(1)[OF None \<open>c = CHR ''_''\<close> cs d rest] have "CHR ''.'' \<notin> set cs'" .
    moreover from d point have "c' \<noteq> CHR ''.''" by auto
    ultimately show ?thesis using \<open>c = CHR ''_''\<close> cs by simp
  qed
qed

lemma digits_no_point:
  "CHR ''.'' \<in> set s \<Longrightarrow> digits s = None"
proof (cases s)
  case Nil
  then show ?thesis by (simp add: digits_def)
next
  case (Cons c cs)
  assume point: "CHR ''.'' \<in> set s"
  show ?thesis
  proof (cases "digit_of c")
    case None
    with Cons show ?thesis by (simp add: digits_def)
  next
    case (Some d)
    then have "c \<noteq> CHR ''.''" by (auto simp: digit_of_def)
    with point Cons have "CHR ''.'' \<in> set cs" by simp
    with digits_from_no_point[of cs d] have "digits_from cs d = None"
      by (cases "digits_from cs d") auto
    with Cons Some show ?thesis by (simp add: digits_def)
  qed
qed

lemma dropWhile_member:
  "x \<in> set xs \<Longrightarrow> \<not> P x \<Longrightarrow> x \<in> set (dropWhile P xs)"
  by (induction xs) auto

lemma int_of_string_point:
  assumes "CHR ''.'' \<in> set s"
  shows "int_of_string s = None"
proof -
  have ns: "\<not> is_space CHR ''.''"
    by (simp add: is_space_def)
  from assms have "CHR ''.'' \<in> set (dropWhile is_space s)"
    using ns by (rule dropWhile_member)
  then have "CHR ''.'' \<in> set (dropWhile is_space (rev (dropWhile is_space s)))"
    using ns by (intro dropWhile_member) simp_all
  then have point: "CHR ''.'' \<in> set (strip s)"
    by (simp add: strip_def)
  show ?thesis
  proof (cases "strip s")
    case Nil
    with point show ?thesis by simp
  next
    case (Cons c cs)
    have "digits (c # cs) = None"
      using point Cons by (intro digits_no_point) simp
    moreover have "c = CHR ''-'' \<or> c = CHR ''+'' \<Longrightarrow> digits cs = None"
      using point Cons by (intro digits_no_point) auto
    ultimately show ?thesis
      by (auto simp: int_of_string_def Cons)
  qed
qed

lemma sum_quantity_levels:
  "sum_quantity (map (\<lambda>(a, q). PInst c (AList.update ''quantity'' (PJson (JInt q)) a)) xs @ rest) acc
     = sum_quantity rest (acc + sum_list (map snd xs))"
proof (induction xs arbitrary: acc)
  case Nil
  then show ?case by simp
next
  case (Cons x xs)
  obtain a q where x: "x = (a, q)" by (cases x)
  have "quantity_of (PInst c (AList.update ''quantity'' (PJson (JInt q)) a)) = Inr q"
    by (simp add: quantity_of_def update_conv')
  with Cons.IH[of "acc + q"] x show ?case by (simp add: add.assoc)
qed

lemma OrderBook_len_sum:
  "OrderBook_len
     (AList.update ''bids''
        (PList (map (\<lambda>(a, q). PInst CBid (AList.update ''quantity'' (PJson (JInt q)) a)) ys))
        (AList.update ''asks''
           (PList (map (\<lambda>(a, q). PInst CAsk (AList.update ''quantity'' (PJson (JInt q)) a)) xs))
           self))
     = Inr (sum_list (map snd xs) + sum_list (map snd ys))"
proof -
  have "sum_quantity
          (map (\<lambda>(a, q). PInst CAsk (AList.update ''quantity'' (PJson (JInt q)) a)) xs
           @ map (\<lambda>(a, q). PInst CBid (AList.update ''quantity'' (PJson (JInt q)) a)) ys) 0
        = Inr (sum_list (map snd xs) + sum_list (map snd ys))"
    using sum_quantity_levels[of CAsk xs _ 0] sum_quantity_levels[of CBid ys "[]"]
    by simp
  then show ?thesis
    by (simp add: OrderBook_len_def py_getattr_def object_getattribute_def update_conv' iter_val_def)
qed

lemma new_levels_all:
  "list_all2 (\<lambda>a x. new_level c a = Inr x) arrays levels \<Longrightarrow> new_levels c arrays = Inr levels"
  by (induction rule: list_all2_induct) simp_all

text \<open>
  Claim C3, as amended.  \<^verbatim>\<open>Ask(*a)\<close> and \<^verbatim>\<open>Bid(*b)\<close> read a four-element array
  as price, size, volume, quantity (the order of the signature), not as
  price, quantity, size, volume: the price is kept as it is, and quantity,
  size and volume are \<^verbatim>\<open>int\<close> of the fourth, second and third element, the
  error of a conversion being the error of the construction.  \<^verbatim>\<open>int\<close> keeps an
  integer, gives 0 or 1 for a boolean, truncates a float toward zero, reads a
  string of at most 4300 decimal digits as that number and raises ValueError
  on a string with a point.  An \<^verbatim>\<open>OrderBook\<close> built from \<^verbatim>\<open>asks\<close> and \<^verbatim>\<open>bids\<close>
  (two keys that the normalization keeps) holds the levels of the arrays, in
  their order, and its length is the sum of \<^verbatim>\<open>quantity\<close> over all asks and
  bids.  So asks
  \<^verbatim>\<open>[["100.5", "10", "200", "2"]]\<close> and bids \<^verbatim>\<open>[["99.5", "5", "99", "1"]]\<close> give
  exactly one Ask of quantity 2, one Bid of quantity 1 and the length 3, and
  the arrays of the claim raise ValueError: the fourth element of its bid,
  \<^verbatim>\<open>"99.5"\<close>, is read as the quantity.
\<close>

theorem order_book_levels_by_position:
  "new_level c (JList [price, size_arg, volume, quantity]) =
     (case py_int quantity of
        Inl e \<Rightarrow> Inl e
      | Inr q \<Rightarrow>
          (case py_int size_arg of
             Inl e \<Rightarrow> Inl e
           | Inr sz \<Rightarrow>
               (case py_int volume of
                  Inl e \<Rightarrow> Inl e
                | Inr vol \<Rightarrow>
                    Inr (PInst c
                      [(''price'', PJson price), (''quantity'', PJson (JInt q)),
                       (''size'', PJson (JInt sz)), (''volume'', PJson (JInt vol))]))))
   \<and> py_int (JInt n) = Inr n
   \<and> py_int (JBool b) = Inr (if b then 1 else 0)
   \<and> py_int (JFloat r) = Inr (if 0 \<le> r then \<lfloor>r\<rfloor> else \<lceil>r\<rceil>)
   \<and> (s \<noteq> [] \<and> set s \<subseteq> set ''0123456789'' \<and> length s \<le> 4300 \<longrightarrow>
        py_int (JStr s) = Inr (foldl (\<lambda>a ch. 10 * a + (of_char ch - 48)) 0 s))
   \<and> (CHR ''.'' \<in> set t \<longrightarrow> py_int (JStr t) = Inl ValueError)
   \<and> (snake h ''asks'' = ''asks'' \<and> snake h ''bids'' = ''bids''
        \<and> list_all2 (\<lambda>a x. new_level CAsk a = Inr x) ask_arrays asks
        \<and> list_all2 (\<lambda>b y. new_level CBid b = Inr y) bid_arrays bids \<longrightarrow>
        new_OrderBook h [(''asks'', JList ask_arrays), (''bids'', JList bid_arrays)]
          = Inr [(''asks'', PList asks), (''bids'', PList bids)])
   \<and> OrderBook_len
         (AList.update ''bids''
            (PList (map (\<lambda>(a, q). PInst CBid (AList.update ''quantity'' (PJson (JInt q)) a)) ys))
            (AList.update ''asks''
               (PList (map (\<lambda>(a, q). PInst CAsk (AList.update ''quantity'' (PJson (JInt q)) a)) xs))
               self))
       = Inr (sum_list (map snd xs) + sum_list (map snd ys))
   \<and> (snake h ''asks'' = ''asks'' \<and> snake h ''bids'' = ''bids'' \<longrightarrow>
        new_OrderBook h
           [(''asks'', JList [JList [JStr ''100.5'', JStr ''10'', JStr ''200'', JStr ''2'']]),
            (''bids'', JList [JList [JStr ''99.5'', JStr ''5'', JStr ''99'', JStr ''1'']])]
         = Inr [(''asks'', PList [PInst CAsk
                   [(''price'', PJson (JStr ''100.5'')), (''quantity'', PJson (JInt 2)),
                    (''size'', PJson (JInt 10)), (''volume'', PJson (JInt 200))]]),
                (''bids'', PList [PInst CBid
                   [(''price'', PJson (JStr ''99.5'')), (''quantity'', PJson (JInt 1)),
                    (''size'', PJson (JInt 5)), (''volume'', PJson (JInt 99))]])]
      \<and> OrderBook_len
           [(''asks'', PList [PInst CAsk
                   [(''price'', PJson (JStr ''100.5'')), (''quantity'', PJson (JInt 2)),
                    (''size'', PJson (JInt 10)), (''volume'', PJson (JInt 200))]]),
            (''bids'', PList [PInst CBid
                   [(''price'', PJson (JStr ''99.5'')), (''quantity'', PJson (JInt 1)),
                    (''size'', PJson (JInt 5)), (''volume'', PJson (JInt 99))]])]
         = Inr 3
      \<and> new_OrderBook h
           [(''asks'', JList [JList [JStr ''100.5'', JStr ''2'', JStr ''10'', JStr ''200'']]),
            (''bids'', JList [JList [JStr ''99.5'', JStr ''1'', JStr ''5'', JStr ''99.5'']])]
         = Inl ValueError)"
proof (intro conjI impI)
  show reading: "new_level c (JList [price, size_arg, volume, quantity]) =
     (case py_int quantity of
        Inl e \<Rightarrow> Inl e
      | Inr q \<Rightarrow>
          (case py_int size_arg of
             Inl e \<Rightarrow> Inl e
           | Inr sz \<Rightarrow>
               (case py_int volume of
                  Inl e \<Rightarrow> Inl e
                | Inr vol \<Rightarrow>
                    Inr (PInst c
                      [(''price'', PJson price), (''quantity'', PJson (JInt q)),
                       (''size'', PJson (JInt sz)), (''volume'', PJson (JInt vol))]))))"
    for c price size_arg volume quantity
    by (simp add: new_level_def py_iter_def OrderBookOrder_init_def split: sum.splits)
  show "py_int (JInt n) = Inr n"
    by (simp add: py_int_def)
  show "py_int (JBool b) = Inr (if b then 1 else 0)"
    by (simp add: py_int_def)
  show "py_int (JFloat r) = Inr (if 0 \<le> r then \<lfloor>r\<rfloor> else \<lceil>r\<rceil>)"
    by (simp add: py_int_def trunc_def)
  show "py_int (JStr s) = Inr (foldl (\<lambda>a ch. 10 * a + (of_char ch - 48)) 0 s)"
    if "s \<noteq> [] \<and> set s \<subseteq> set ''0123456789'' \<and> length s \<le> 4300"
    using that by (simp add: py_int_def int_of_digit_string del: set_simps)
  show "py_int (JStr t) = Inl ValueError" if "CHR ''.'' \<in> set t"
    using that by (simp add: py_int_def int_of_string_point)
  have book: "new_OrderBook h [(''asks'', JList as), (''bids'', JList bs)]
          = Inr [(''asks'', PList A), (''bids'', PList B)]"
    if "snake h ''asks'' = ''asks''" "snake h ''bids'' = ''bids''"
      "new_levels CAsk as = Inr A" "new_levels CBid bs = Inr B" for as bs A B
    using that by (simp add: new_OrderBook_def bind_kwargs_def py_iter_def py_setattr_def)
  show "new_OrderBook h [(''asks'', JList ask_arrays), (''bids'', JList bid_arrays)]
          = Inr [(''asks'', PList asks), (''bids'', PList bids)]"
    if "snake h ''asks'' = ''asks'' \<and> snake h ''bids'' = ''bids''
        \<and> list_all2 (\<lambda>a x. new_level CAsk a = Inr x) ask_arrays asks
        \<and> list_all2 (\<lambda>b y. new_level CBid b = Inr y) bid_arrays bids"
    using that by (intro book new_levels_all) simp_all
  show "OrderBook_len
         (AList.update ''bids''
            (PList (map (\<lambda>(a, q). PInst CBid (AList.update ''quantity'' (PJson (JInt q)) a)) ys))
            (AList.update ''asks''
               (PList (map (\<lambda>(a, q). PInst CAsk (AList.update ''quantity'' (PJson (JInt q)) a)) xs))
               self))
       = Inr (sum_list (map snd xs) + sum_list (map snd ys))"
    by (rule OrderBook_len_sum)
  have ints: "py_int (JStr ''2'') = Inr 2" "py_int (JStr ''10'') = Inr 10"
    "py_int (JStr ''200'') = Inr 200" "py_int (JStr ''1'') = Inr 1" "py_int (JStr ''5'') = Inr 5"
    "py_int (JStr ''99'') = Inr 99" "py_int (JStr ''99.5'') = Inl ValueError"
    by (simp_all add: py_int_def int_of_string_def strip_def is_space_def digits_def digit_of_def)
  assume names: "snake h ''asks'' = ''asks'' \<and> snake h ''bids'' = ''bids''"
  show "new_OrderBook h
           [(''asks'', JList [JList [JStr ''100.5'', JStr ''10'', JStr ''200'', JStr ''2'']]),
            (''bids'', JList [JList [JStr ''99.5'', JStr ''5'', JStr ''99'', JStr ''1'']])]
         = Inr [(''asks'', PList [PInst CAsk
                   [(''price'', PJson (JStr ''100.5'')), (''quantity'', PJson (JInt 2)),
                    (''size'', PJson (JInt 10)), (''volume'', PJson (JInt 200))]]),
                (''bids'', PList [PInst CBid
                   [(''price'', PJson (JStr ''99.5'')), (''quantity'', PJson (JInt 1)),
                    (''size'', PJson (JInt 5)), (''volume'', PJson (JInt 99))]])]"
    using names by (intro book) (simp_all add: reading ints)
  show "OrderBook_len
           [(''asks'', PList [PInst CAsk
                   [(''price'', PJson (JStr ''100.5'')), (''quantity'', PJson (JInt 2)),
                    (''size'', PJson (JInt 10)), (''volume'', PJson (JInt 200))]]),
            (''bids'', PList [PInst CBid
                   [(''price'', PJson (JStr ''99.5'')), (''quantity'', PJson (JInt 1)),
                    (''size'', PJson (JInt 5)), (''volume'', PJson (JInt 99))]])]
         = Inr 3"
    by (simp add: OrderBook_len_def py_getattr_def object_getattribute_def iter_val_def
        quantity_of_def)
  show "new_OrderBook h
           [(''asks'', JList [JList [JStr ''100.5'', JStr ''2'', JStr ''10'', JStr ''200'']]),
            (''bids'', JList [JList [JStr ''99.5'', JStr ''1'', JStr ''5'', JStr ''99.5'']])]
         = Inl ValueError"
    using names
    by (simp add: new_OrderBook_def bind_kwargs_def py_iter_def py_setattr_def reading ints)
qed

theorem order_book_levels_by_position_witness:
  "py_int (JStr ''200'') = Inr 200
   \<and> py_int (JStr ''99.5'') = Inl ValueError
   \<and> snake sample_helpers ''asks'' = ''asks'' \<and> snake sample_helpers ''bids'' = ''bids''
   \<and> new_OrderBook sample_helpers
        [(''asks'', JList [JList [JStr ''100.5'', JStr ''10'', JStr ''200'', JStr ''2'']]),
         (''bids'', JList [JList [JStr ''99.5'', JStr ''5'', JStr ''99'', JStr ''1'']])]
      = Inr [(''asks'', PList [PInst CAsk
                [(''price'', PJson (JStr ''100.5'')), (''quantity'', PJson (JInt 2)),
                 (''size'', PJson (JInt 10)), (''volume'', PJson (JInt 200))]]),
             (''bids'', PList [PInst CBid
                [(''price'', PJson (JStr ''99.5'')), (''quantity'', PJson (JInt 1)),
                 (''size'', PJson (JInt 5)), (''volume'', PJson (JInt 99))]])]"
proof -
  let ?ask = "PInst CAsk
                [(''price'', PJson (JStr ''100.5'')), (''quantity'', PJson (JInt 2)),
                 (''size'', PJson (JInt 10)), (''volume'', PJson (JInt 200))]"
  let ?bid = "PInst CBid
                [(''price'', PJson (JStr ''99.5'')), (''quantity'', PJson (JInt 1)),
                 (''size'', PJson (JInt 5)), (''volume'', PJson (JInt 99))]"
  note inst = order_book_levels_by_position
    [where s = "''200''" and t = "''99.5''" and h = sample_helpers
       and ask_arrays = "[JList [JStr ''100.5'', JStr ''10'', JStr ''200'', JStr ''2'']]"
       and bid_arrays = "[JList [JStr ''99.5'', JStr ''5'', JStr ''99'', JStr ''1'']]"
       and asks = "[?ask]" and bids = "[?bid]"]
  have a: "snake sample_helpers ''asks'' = ''asks''" by (simp add: sample_helpers_def)
  have b: "snake sample_helpers ''bids'' = ''bids''" by (simp add: sample_helpers_def)
  have digs: "''200'' \<noteq> [] \<and> set ''200'' \<subseteq> set ''0123456789'' \<and> length ''200'' \<le> 4300"
    by simp
  have point: "CHR ''.'' \<in> set ''99.5''" by simp
  have ask: "new_level CAsk (JList [JStr ''100.5'', JStr ''10'', JStr ''200'', JStr ''2'']) = Inr ?ask"
    by code_simp
  have bid: "new_level CBid (JList [JStr ''99.5'', JStr ''5'', JStr ''99'', JStr ''1'']) = Inr ?bid"
    by code_simp
  from inst digs have "py_int (JStr ''200'') = Inr 200"
    by simp
  moreover from inst point have "py_int (JStr ''99.5'') = Inl ValueError"
    by blast
  moreover from inst a b ask bid
  have "new_OrderBook sample_helpers
        [(''asks'', JList [JList [JStr ''100.5'', JStr ''10'', JStr ''200'', JStr ''2'']]),
         (''bids'', JList [JList [JStr ''99.5'', JStr ''5'', JStr ''99'', JStr ''1'']])]
      = Inr [(''asks'', PList [?ask]), (''bids'', PList [?bid])]"
    by simp
  ultimately show ?thesis using a b by simp
qed

theorem order_book_claimed_arrays_counterexample:
  "new_level CAsk (JList [JStr ''100.5'', JStr ''2'', JStr ''10'', JStr ''200''])
     = Inr (PInst CAsk
         [(''price'', PJson (JStr ''100.5'')), (''quantity'', PJson (JInt 200)),
          (''size'', PJson (JInt 2)), (''volume'', PJson (JInt 10))])
   \<and> new_level CBid (JList [JStr ''99.5'', JStr ''1'', JStr ''5'', JStr ''99.5'']) = Inl ValueError
   \<and> new_OrderBook sample_helpers
        [(''asks'', JList [JList [JStr ''100.5'', JStr ''2'', JStr ''10'', JStr ''200'']]),
         (''bids'', JList [JList [JStr ''99.5'', JStr ''1'', JStr ''5'', JStr ''99.5'']])]
      = Inl ValueError"
  by code_simp

section \<open>Field-name normalization\<close>

text \<open>
  Claim C5.  On the wire field names of this API the normalization has no
  collision: two distinct names have distinct images.  It gives a value for
  each of them (the list below), \<^verbatim>\<open>order_hash\<close> for \<^verbatim>\<open>orderHash\<close> and
  \<^verbatim>\<open>account_id\<close> for \<^verbatim>\<open>accountId\<close>.
\<close>

theorem to_snake_case_collision_free:
  "inj_on to_snake_case (set wire_field_names)
   \<and> to_snake_case ''orderHash'' = ''order_hash''
   \<and> to_snake_case ''accountId'' = ''account_id''
   \<and> map to_snake_case wire_field_names =
       [''account_id'', ''end'', ''limit'', ''market'', ''offset'', ''order_types'', ''side'',
        ''start'', ''status'', ''trade_channels'', ''sell_token_id'', ''order_hash'', ''order_id'',
        ''offchain_id'', ''result_info'', ''orders'', ''timestamp'', ''validity'', ''volumes'',
        ''asks'', ''bids'', ''version'', ''hash'', ''is_idempotent'', ''client_order_id'',
        ''order_type'', ''price'', ''trade_channel'', ''base_amount'', ''base_filled'', ''fee'',
        ''quote_amount'', ''quote_filled'', ''wallet_factory'', ''wallet_owner'', ''wallet_salt'']"
proof -
  have images: "map to_snake_case wire_field_names =
       [''account_id'', ''end'', ''limit'', ''market'', ''offset'', ''order_types'', ''side'',
        ''start'', ''status'', ''trade_channels'', ''sell_token_id'', ''order_hash'', ''order_id'',
        ''offchain_id'', ''result_info'', ''orders'', ''timestamp'', ''validity'', ''volumes'',
        ''asks'', ''bids'', ''version'', ''hash'', ''is_idempotent'', ''client_order_id'',
        ''order_type'', ''price'', ''trade_channel'', ''base_amount'', ''base_filled'', ''fee'',
        ''quote_amount'', ''quote_filled'', ''wallet_factory'', ''wallet_owner'', ''wallet_salt'']"
    by (simp add: wire_field_names_def to_lower_def)
  have "distinct (map to_snake_case wire_field_names)"
    unfolding images by simp
  then have "inj_on to_snake_case (set wire_field_names)"
    by (simp add: distinct_map)
  moreover have "to_snake_case ''orderHash'' = ''order_hash''"
    by (simp add: to_lower_def)
  moreover have "to_snake_case ''accountId'' = ''account_id''"
    by (simp add: to_lower_def)
  ultimately show ?thesis using images by simp
qed

section \<open>Client\<close>

text \<open>
  Claim C8.  Without a keyword argument \<^verbatim>\<open>config\<close>, \<^verbatim>\<open>config["config"]\<close> raises
  KeyError before any of the three checks, whatever \<^verbatim>\<open>account_id\<close>, \<^verbatim>\<open>api_key\<close>
  and \<^verbatim>\<open>endpoint\<close> are; no request is issued.
\<close>

theorem Client_without_config_raises_KeyError:
  "map_of config ''config'' = None \<Longrightarrow>
   Client_init account_id_arg api_key_arg endpoint_arg handle_errors_arg config sent
     = (Inl KeyError, sent)"
  by (simp add: Client_init_def)

theorem Client_without_config_raises_KeyError_witness:
  "map_of ([] :: (string \<times> json) list) ''config'' = None
   \<and> Client_init (JInt 12345) (JStr ''key'') (JStr ''https://api3.loopring.io'') True [] []
       = (Inl KeyError, [])"
  using Client_without_config_raises_KeyError
    [of "[]" "JInt 12345" "JStr ''key''" "JStr ''https://api3.loopring.io''" True "[]"]
  by simp

text \<open>
  Claim C6, at the input where the code departs from it: \<^verbatim>\<open>Client()\<close> has no
  account id, and raises KeyError, not InvalidArguments.
\<close>

theorem Client_missing_everything_raises_KeyError:
  "Client_init JNull JNull JNull True [] [] = (Inl KeyError, [])"
  by (simp add: Client_init_def)

text \<open>
  What holds of the claim: with a \<^verbatim>\<open>config\<close> dictionary, a missing account id,
  API key or endpoint raises InvalidArguments; \<^verbatim>\<open>get_next_storage_id\<close> and
  \<^verbatim>\<open>get_order_details\<close> raise it for a missing argument; the constructor never
  issues a request, and neither do the two calls when they raise it.
\<close>

lemma Client_init_issues_no_request:
  "snd (Client_init account_id_arg api_key_arg endpoint_arg handle_errors_arg config sent) = sent"
  by (simp add: Client_init_def split: option.splits sum.splits)

lemma Client_init_missing_value:
  assumes "map_of config ''config'' = Some (JObj d)"
    and "\<not> truthy (py_or (case map_of d ''account_id'' of None \<Rightarrow> JNull | Some v \<Rightarrow> v) account_id_arg)
       \<or> \<not> truthy (py_or (case map_of d ''api_key'' of None \<Rightarrow> JNull | Some v \<Rightarrow> v) api_key_arg)
       \<or> \<not> truthy (py_or (case map_of d ''endpoint'' of None \<Rightarrow> JNull | Some v \<Rightarrow> v) endpoint_arg)"
  shows "\<exists>msg. Client_init account_id_arg api_key_arg endpoint_arg handle_errors_arg config sent
           = (Inl (InvalidArguments msg), sent)"
  using assms by (auto simp: Client_init_def dict_get_def)

lemma get_order_details_missing_orderhash:
  "\<not> truthy orderhash \<Longrightarrow>
   get_order_details h t c orderhash sent
     = (Inl (InvalidArguments ''Missing 'orderhash' argument.''), sent)"
  by (simp add: get_order_details_def)

text \<open>
  Claim C7.  A second \<^verbatim>\<open>close\<close> after a first one raises nothing and leaves the
  session closed; it changes nothing that the first call left.
\<close>

theorem close_is_idempotent:
  "\<exists>c'. close_twice c = Inr c' \<and> session_closed c' \<and> close_twice c = close c"
  by (simp add: close_twice_def close_def)

text \<open>
  Claim C9.  Every falsy \<^verbatim>\<open>sell_token_id\<close> (\<^verbatim>\<open>0\<close> among them) is taken for a
  missing one: InvalidArguments, the same result as for \<^verbatim>\<open>None\<close>, and no
  request.
\<close>

theorem falsy_sell_token_id_is_missing:
  "\<not> truthy v \<Longrightarrow>
   get_next_storage_id t c v sent
     = (Inl (InvalidArguments ''Missing 'sellTokenID' argument.''), sent)
   \<and> get_next_storage_id t c v sent = get_next_storage_id t c JNull sent"
  by (simp add: get_next_storage_id_def truthy_def)

theorem falsy_sell_token_id_is_missing_witness:
  "\<not> truthy (JInt 0)
   \<and> get_next_storage_id sample_transport sample_client (JInt 0) []
       = (Inl (InvalidArguments ''Missing 'sellTokenID' argument.''), [])
   \<and> get_next_storage_id sample_transport sample_client (JInt 0) []
       = get_next_storage_id sample_transport sample_client JNull []"
proof -
  have falsy: "\<not> truthy (JInt 0)" by (simp add: truthy_def)
  from falsy_sell_token_id_is_missing [OF falsy, of sample_transport sample_client "[]"] falsy
  show ?thesis by blast
qed

end
